theory Spec2Isabelle
  imports Complex_Main "HOL-Library.Word"
begin

unbundle bit_operations_syntax

section \<open>Python values used by loraL2.py\<close>

text \<open>
  A \<^verbatim>\<open>bytes\<close> or \<^verbatim>\<open>bytearray\<close> object is a list of 8-bit words. Python integers are
  unbounded, so identifiers, counters and lengths are \<^typ>\<open>int\<close>. The exceptions the module
  can meet are values of \<open>error\<close>; a computation that may raise returns \<open>error + 'a\<close>,
  with \<open>Inl\<close> for the exception.
\<close>

type_synonym byte = "8 word"
type_synonym bytes = "byte list"

datatype error = ValueError string | StructError | IndexError | TypeError

definition and_then :: "error + 'a \<Rightarrow> ('a \<Rightarrow> error + 'b) \<Rightarrow> error + 'b" where
  "and_then m f = (case m of Inl e \<Rightarrow> Inl e | Inr x \<Rightarrow> f x)"

text \<open>
  \<^verbatim>\<open>struct.pack('>H', x)\<close>: two bytes, most significant first; \<^verbatim>\<open>struct.error\<close> when
  \<open>x\<close> is not an unsigned 16-bit value. \<^verbatim>\<open>struct.unpack('>H', b)[0]\<close> wants exactly two bytes.
\<close>

definition pack_H :: "int \<Rightarrow> error + bytes" where
  "pack_H x =
     (if 0 \<le> x \<and> x \<le> 65535 then Inr [word_of_int (x div 256), word_of_int (x mod 256)]
      else Inl StructError)"

definition unpack_H :: "bytes \<Rightarrow> error + int" where
  "unpack_H b =
     (if length b = 2 then Inr (uint (b ! 0) * 256 + uint (b ! 1)) else Inl StructError)"

text \<open>
  \<^verbatim>\<open>bytearray.append(x)\<close> raises ValueError unless \<open>0 \<le> x < 256\<close>;
  \<^verbatim>\<open>bytearray.extend(b)\<close> with a bytes object cannot fail.
\<close>

definition bytearray_append :: "bytes \<Rightarrow> int \<Rightarrow> error + bytes" where
  "bytearray_append frame x =
     (if 0 \<le> x \<and> x < 256 then Inr (frame @ [word_of_int x])
      else Inl (ValueError ''byte must be in range(0, 256)''))"

definition bytearray_extend :: "bytes \<Rightarrow> bytes \<Rightarrow> bytes" where
  "bytearray_extend frame b = frame @ b"

text \<open>
  Slices never raise: each bound is counted from the end when negative and then clamped
  to \<open>0..len\<close>. \<open>slice xs i j\<close> is \<^verbatim>\<open>xs[i:j]\<close>, \<open>slice_from xs i\<close> is \<^verbatim>\<open>xs[i:]\<close>.
  Indexing raises IndexError outside \<open>-len..len-1\<close>.
\<close>

definition slice_bound :: "nat \<Rightarrow> int \<Rightarrow> nat" where
  "slice_bound n i = (if i < 0 then nat (max 0 (int n + i)) else min n (nat i))"

definition slice :: "'a list \<Rightarrow> int \<Rightarrow> int \<Rightarrow> 'a list" where
  "slice xs i j =
     (let lo = slice_bound (length xs) i; hi = slice_bound (length xs) j
      in take (hi - lo) (drop lo xs))"

definition slice_from :: "'a list \<Rightarrow> int \<Rightarrow> 'a list" where
  "slice_from xs i = drop (slice_bound (length xs) i) xs"

definition getitem :: "'a list \<Rightarrow> int \<Rightarrow> error + 'a" where
  "getitem xs i =
     (if 0 \<le> i \<and> i < int (length xs) then Inr (xs ! nat i)
      else if i < 0 \<and> - int (length xs) \<le> i then Inr (xs ! nat (int (length xs) + i))
      else Inl IndexError)"

section \<open>class LoRaLevel2Protocol\<close>

definition FRAME_HEADER :: bytes where
  "FRAME_HEADER = [0xAA]"

definition FRAME_FOOTER :: bytes where
  "FRAME_FOOTER = [0x55]"

definition MAX_PAYLOAD_SIZE :: int where
  "MAX_PAYLOAD_SIZE = 255"

record LoRaLevel2Protocol =
  device_id :: int
  sequence_number :: int

text \<open>
  \<^verbatim>\<open>__init__(self, device_id=None)\<close>. The argument is \<open>None\<close> or an integer; \<open>randint\<close> is
  the value \<^verbatim>\<open>random.randint(0, 0xFFFF)\<close> yields when it is called. Python's \<^verbatim>\<open>a or b\<close> is
  \<open>a\<close> when \<open>a\<close> is truthy and \<open>b\<close> otherwise; \<open>None\<close> and \<open>0\<close> are both falsy.
\<close>

definition truthy :: "int option \<Rightarrow> bool" where
  "truthy v = (case v of None \<Rightarrow> False | Some d \<Rightarrow> d \<noteq> 0)"

definition init :: "int option \<Rightarrow> int \<Rightarrow> LoRaLevel2Protocol" where
  "init device_id_arg randint =
     \<lparr>device_id = (if truthy device_id_arg then the device_id_arg else randint),
      sequence_number = 0\<rparr>"

text \<open>
  \<^verbatim>\<open>create_frame(self, destination_id, payload)\<close> returns the frame or the exception, and
  the instance as the call leaves it: the size check comes before the counter is
  advanced, the packing of the identifiers after.
\<close>

definition create_frame ::
  "LoRaLevel2Protocol \<Rightarrow> int \<Rightarrow> bytes \<Rightarrow> (error + bytes) \<times> LoRaLevel2Protocol" where
  "create_frame self destination_id payload =
     (if int (length payload) > MAX_PAYLOAD_SIZE
      then (Inl (ValueError ''Payload exceeds maximum size''), self)
      else
        let self' = self\<lparr>sequence_number := (sequence_number self + 1) mod 256\<rparr>;
            frame = bytearray_extend [] FRAME_HEADER
        in (and_then (pack_H (device_id self')) (\<lambda>src.
            and_then (pack_H destination_id) (\<lambda>dst.
            and_then (bytearray_append (bytearray_extend (bytearray_extend frame src) dst)
                        (sequence_number self')) (\<lambda>frame.
            and_then (bytearray_append frame (int (length payload))) (\<lambda>frame.
            and_then (pack_H 1) (\<lambda>crc.
            Inr (bytearray_extend
                   (bytearray_extend (bytearray_extend frame payload) crc)
                   FRAME_FOOTER)))))),
            self'))"

text \<open>
  The dictionary \<^verbatim>\<open>parse_frame\<close> returns, with the names of the local variables that fill
  it: key \<^verbatim>\<open>'destination_id'\<close> holds \<open>dest_id\<close> and key \<^verbatim>\<open>'sequence_number'\<close> holds
  \<open>seq_num\<close>.
\<close>

record frame_details =
  source_id :: int
  dest_id :: int
  seq_num :: int
  payload :: bytes

text \<open>
  The body of the \<^verbatim>\<open>try\<close> block, then the \<^verbatim>\<open>except (struct.error, IndexError)\<close> clause.
  In \<open>parse_frame\<close> the test \<^verbatim>\<open>header wrong or footer wrong\<close> is written as the two tests
  Python's short-circuit \<^verbatim>\<open>or\<close> makes, in its order.
\<close>

definition parse_body :: "bytes \<Rightarrow> error + frame_details option" where
  "parse_body received_frame =
     and_then (unpack_H (slice received_frame 1 3)) (\<lambda>source_id.
     and_then (unpack_H (slice received_frame 3 5)) (\<lambda>dest_id.
     and_then (getitem received_frame 5) (\<lambda>seq_num.
     and_then (getitem received_frame 6) (\<lambda>payload_len.
     let payload = slice received_frame 7 (7 + uint payload_len) in
     and_then (unpack_H (slice received_frame (- 3) (- 1))) (\<lambda>received_crc.
     let frame_for_crc = slice received_frame 1 (- 3);
         calculated_crc = 1
     in if received_crc \<noteq> calculated_crc then Inr None
        else Inr (Some \<lparr>source_id = source_id, dest_id = dest_id,
                         seq_num = uint seq_num, payload = payload\<rparr>))))))"

definition except_struct_index :: "error + 'a option \<Rightarrow> error + 'a option" where
  "except_struct_index r =
     (case r of
        Inl StructError \<Rightarrow> Inr None
      | Inl IndexError \<Rightarrow> Inr None
      | Inl (ValueError m) \<Rightarrow> Inl (ValueError m)
      | Inl TypeError \<Rightarrow> Inl TypeError
      | Inr v \<Rightarrow> Inr v)"

definition parse_frame :: "LoRaLevel2Protocol \<Rightarrow> bytes \<Rightarrow> error + frame_details option" where
  "parse_frame self received_frame =
     (if length received_frame < 10 then Inr None
      else if slice received_frame 0 1 \<noteq> FRAME_HEADER then Inr None
      else if slice_from received_frame (- 1) \<noteq> FRAME_FOOTER then Inr None
      else except_struct_index (parse_body received_frame))"

text \<open>
  \<^verbatim>\<open>retransmit_strategy(self, max_retries=3, timeout=2.0)\<close>: an argument left out is
  \<open>None\<close> here and takes its default. The result is the dictionary of the two settings.
\<close>

record retransmit_config =
  max_retries :: int
  timeout :: real

definition retransmit_strategy ::
  "LoRaLevel2Protocol \<Rightarrow> int option \<Rightarrow> real option \<Rightarrow> retransmit_config" where
  "retransmit_strategy self max_retries_arg timeout_arg =
     \<lparr>max_retries = (case max_retries_arg of None \<Rightarrow> 3 | Some m \<Rightarrow> m),
      timeout = (case timeout_arg of None \<Rightarrow> 2.0 | Some t \<Rightarrow> t)\<rparr>"

section \<open>The module's functions and the radio driver\<close>

text \<open>
  Modelled from the spec: the transport collaborator of its section 6, which stands for
  the radio driver \<^verbatim>\<open>lora.sx126x\<close> that the module imports and the repository does not
  hold. The spec gives it two primitives, \<^verbatim>\<open>transmit(frame_bytes)\<close> and
  \<^verbatim>\<open>receive(timeout) -> bytes | none\<close>; the module reaches them as \<^verbatim>\<open>modem.send(frame)\<close> and
  \<^verbatim>\<open>modem.recv(timeout_ms=...)\<close> on the object \<^verbatim>\<open>sx126x.SX1262(...)\<close> builds. Nothing is
  assumed of the driver: a function of the module is modelled by the value it returns
  together with the driver calls it makes, in order, and what \<^verbatim>\<open>recv\<close> gives back is an
  argument of the model.
\<close>

datatype driver_call = SX1262 | Send bytes | Recv int

text \<open>
  \<^verbatim>\<open>get_modem()\<close> builds the driver object. \<^verbatim>\<open>transmit(message)\<close> builds two instances with the
  non-zero identifiers 0x1234 and 0x5678 (so \<^verbatim>\<open>random.randint\<close> is not called; the model
  passes 0 in its place), encodes the fixed greeting, obtains a modem and sends the frame;
  its argument is not used. \<^verbatim>\<open>receive()\<close> obtains a modem, polls it once with a timeout of
  5000 ms and parses what came, if anything came (\<open>None\<close> and the empty bytes are falsy).
  \<^verbatim>\<open>example_transmission()\<close> encodes and decodes the greeting without a modem; reading a
  key of \<open>None\<close> would raise TypeError.
\<close>

definition bytes_of :: "string \<Rightarrow> bytes" where
  "bytes_of s = map (\<lambda>c. word_of_nat (of_char c)) s"

definition get_modem :: "driver_call list" where
  "get_modem = [SX1262]"

definition transmit :: "bytes \<Rightarrow> (error + unit) \<times> driver_call list" where
  "transmit message =
     (let sender = init (Some 0x1234) 0;
          receiver = init (Some 0x5678) 0;
          pl = bytes_of ''Hello, LoRa World!''
      in case fst (create_frame sender (device_id receiver) pl) of
           Inl e \<Rightarrow> (Inl e, [])
         | Inr frame \<Rightarrow> (Inr (), get_modem @ [Send frame]))"

definition receive :: "bytes option \<Rightarrow> (error + frame_details option) \<times> driver_call list" where
  "receive rx =
     (let receiver = init (Some 0x5678) 0
      in (case rx of
            None \<Rightarrow> Inr None
          | Some b \<Rightarrow> if b = [] then Inr None else parse_frame receiver b,
          get_modem @ [Recv 5000]))"

definition example_transmission :: "(error + unit) \<times> driver_call list" where
  "example_transmission =
     (let sender = init (Some 0x1234) 0;
          receiver = init (Some 0x5678) 0;
          pl = bytes_of ''Hello, LoRa World!''
      in (and_then (fst (create_frame sender (device_id receiver) pl)) (\<lambda>frame.
          and_then (parse_frame receiver frame) (\<lambda>received_frame_details.
          case received_frame_details of None \<Rightarrow> Inl TypeError | Some d \<Rightarrow> Inr ())),
          []))"

text \<open>
  Everything a caller can do with the module: build an instance, call one of its three
  methods, or call one of the four functions. \<open>run\<close> gives the instance after a call
  and the driver calls the call made; \<open>run_calls\<close> makes the calls of a list one after
  the other. With \<open>Receive rx\<close> the driver's \<^verbatim>\<open>recv\<close> gives back \<open>rx\<close>. The transmissions of
  a run are its \<open>Send\<close> calls, the polls its \<open>Recv\<close> calls.
\<close>

datatype call =
    Construct "int option" int
  | Create_frame int bytes
  | Parse_frame bytes
  | Retransmit_strategy "int option" "real option"
  | Get_modem
  | Transmit bytes
  | Receive "bytes option"
  | Example_transmission

fun run :: "call \<Rightarrow> LoRaLevel2Protocol \<Rightarrow> LoRaLevel2Protocol \<times> driver_call list" where
  "run (Construct dev rnd) self = (init dev rnd, [])"
| "run (Create_frame d pl) self = (snd (create_frame self d pl), [])"
| "run (Parse_frame b) self = (self, [])"
| "run (Retransmit_strategy m t) self = (self, [])"
| "run Get_modem self = (self, get_modem)"
| "run (Transmit message) self = (self, snd (transmit message))"
| "run (Receive rx) self = (self, snd (receive rx))"
| "run Example_transmission self = (self, snd example_transmission)"

fun run_calls :: "call list \<Rightarrow> LoRaLevel2Protocol \<Rightarrow> LoRaLevel2Protocol \<times> driver_call list" where
  "run_calls [] self = (self, [])"
| "run_calls (c # cs) self =
     (let (self', made) = run c self;
          (self'', rest) = run_calls cs self'
      in (self'', made @ rest))"

fun is_send :: "driver_call \<Rightarrow> bool" where
  "is_send (Send frame) = True"
| "is_send c = False"

fun is_recv :: "driver_call \<Rightarrow> bool" where
  "is_recv (Recv t) = True"
| "is_recv c = False"

fun is_transmit :: "call \<Rightarrow> bool" where
  "is_transmit (Transmit message) = True"
| "is_transmit c = False"

definition transmissions :: "driver_call list \<Rightarrow> nat" where
  "transmissions made = length (filter is_send made)"

definition polls :: "driver_call list \<Rightarrow> nat" where
  "polls made = length (filter is_recv made)"

section \<open>Notions the properties are stated with\<close>

text \<open>
  An identifier is valid when it is an unsigned 16-bit value, a call of \<^verbatim>\<open>create_frame\<close>
  when its destination is valid and its payload has at most 255 bytes. \<open>frame_bytes\<close> is the wire
  layout of a frame written out: header, both identifiers, the counter, the length, the
  payload, the bytes 00 01 where the CRC goes, footer. \<open>successive_encodes\<close> makes
  the calls of a list one after the other on one instance and keeps every outcome.
  \<open>flip_bit i k\<close> inverts bit \<open>k\<close> of byte \<open>i\<close>.
\<close>

definition valid_id :: "int \<Rightarrow> bool" where
  "valid_id x = (0 \<le> x \<and> x \<le> 0xFFFF)"


definition frame_bytes :: "int \<Rightarrow> int \<Rightarrow> int \<Rightarrow> bytes \<Rightarrow> bytes" where
  "frame_bytes src dst sq pl =
     [0xAA, word_of_int (src div 256), word_of_int (src mod 256),
      word_of_int (dst div 256), word_of_int (dst mod 256),
      word_of_int sq, word_of_int (int (length pl))] @ pl @ [0, 1, 0x55]"


definition flip_bit :: "nat \<Rightarrow> nat \<Rightarrow> bytes \<Rightarrow> bytes" where
  "flip_bit i k b = b[i := (b ! i) XOR (push_bit k 1)]"

section \<open>Encoding: size check and sequence counter\<close>

lemma create_frame_too_large:
  "255 < length pl \<Longrightarrow>
   create_frame self d pl = (Inl (ValueError ''Payload exceeds maximum size''), self)"
  by (simp add: create_frame_def MAX_PAYLOAD_SIZE_def)

lemma create_frame_ok:
  assumes "length pl \<le> 255" and "valid_id (device_id self)" and "valid_id d"
  shows "create_frame self d pl =
           (Inr (frame_bytes (device_id self) d ((sequence_number self + 1) mod 256) pl),
            self\<lparr>sequence_number := (sequence_number self + 1) mod 256\<rparr>)"
  using assms
  by (simp add: create_frame_def MAX_PAYLOAD_SIZE_def Let_def and_then_def pack_H_def
      bytearray_append_def bytearray_extend_def FRAME_HEADER_def FRAME_FOOTER_def
      frame_bytes_def valid_id_def)

section \<open>What parse_frame computes\<close>

lemma take2_drop: "k + 2 \<le> length xs \<Longrightarrow> take 2 (drop k xs) = [xs ! k, xs ! Suc k]"
  by (simp add: list_eq_iff_nth_eq less_Suc_eq numeral_2_eq_2)

lemma slice_header: "10 \<le> length rf \<Longrightarrow> slice rf 0 1 = [rf ! 0]"
  by (cases rf) (simp_all add: slice_def slice_bound_def)

lemma slice_footer: "10 \<le> length rf \<Longrightarrow> slice_from rf (- 1) = [last rf]"
proof -
  assume a: "10 \<le> length rf"
  then have ne: "rf \<noteq> []" by auto
  have "slice_bound (length rf) (- 1) = length rf - 1"
    using a by (simp add: slice_bound_def nat_diff_distrib)
  then have "slice_from rf (- 1) = drop (length rf - 1) rf"
    by (simp add: slice_from_def)
  also have "\<dots> = [last rf]"
    using ne by (metis append_butlast_last_id append_eq_conv_conj length_butlast)
  finally show ?thesis .
qed

lemma slice_pair:
  "10 \<le> length rf \<Longrightarrow> k \<le> 3 \<Longrightarrow> slice rf (int k) (int k + 2) = [rf ! k, rf ! Suc k]"
  by (simp add: slice_def slice_bound_def take2_drop nat_add_distrib)

lemma slice_crc:
  "10 \<le> length rf \<Longrightarrow> slice rf (- 3) (- 1) = [rf ! (length rf - 3), rf ! (length rf - 2)]"
proof -
  assume a: "10 \<le> length rf"
  have lo: "slice_bound (length rf) (- 3) = length rf - 3"
    using a by (simp add: slice_bound_def nat_diff_distrib)
  have hi: "slice_bound (length rf) (- 1) = length rf - 1"
    using a by (simp add: slice_bound_def nat_diff_distrib)
  have d: "length rf - 1 - (length rf - 3) = 2" using a by simp
  have s: "Suc (length rf - 3) = length rf - 2" using a by simp
  show ?thesis
    using a take2_drop [of "length rf - 3" rf] by (simp add: slice_def lo hi d s)
qed

lemma slice_payload:
  "slice rf 7 (7 + uint (l :: byte)) = take (unat l) (drop 7 rf)"
proof -
  have hi: "nat (7 + uint l) = 7 + unat l"
    by (simp add: nat_add_distrib)
  have nn: "\<not> 7 + uint l < 0"
    using uint_ge_0 [of l] by arith
  show ?thesis
  proof (cases "length rf \<le> 7")
    case True
    then show ?thesis by (simp add: slice_def slice_bound_def nn)
  next
    case False
    then have "take (min (length rf) (7 + unat l) - 7) (drop 7 rf) = take (unat l) (drop 7 rf)"
      by (cases "length rf \<le> 7 + unat l") (simp_all add: min_def)
    with False show ?thesis by (simp add: slice_def slice_bound_def hi nn)
  qed
qed

lemma unpack_H_pair: "unpack_H [a, b] = Inr (uint a * 256 + uint b)"
  by (simp add: unpack_H_def)

lemma crc_is_1: "uint (a :: byte) * 256 + uint (b :: byte) = 1 \<longleftrightarrow> a = 0 \<and> b = 1"
proof
  assume h: "uint a * 256 + uint b = 1"
  have b: "0 \<le> uint a" "0 \<le> uint b"
    by simp_all
  have "uint a = 0 \<or> 1 \<le> uint a"
    using b(1) by linarith
  then have "uint a = 0 \<and> uint b = 1"
  proof
    assume "uint a = 0"
    with h show ?thesis by simp
  next
    assume "1 \<le> uint a"
    with h b(2) have False by linarith
    then show ?thesis ..
  qed
  then show "a = 0 \<and> b = 1" by (simp add: word_uint_eq_iff)
next
  assume "a = 0 \<and> b = 1"
  then show "uint a * 256 + uint b = 1" by simp
qed

lemma parse_frame_eq:
  "parse_frame self rf =
     Inr (if 10 \<le> length rf \<and> rf ! 0 = 0xAA \<and> last rf = 0x55
             \<and> rf ! (length rf - 3) = 0 \<and> rf ! (length rf - 2) = 1
          then Some \<lparr>source_id = uint (rf ! 1) * 256 + uint (rf ! 2),
                       dest_id = uint (rf ! 3) * 256 + uint (rf ! 4),
                       seq_num = uint (rf ! 5),
                       payload = take (unat (rf ! 6)) (drop 7 rf)\<rparr>
          else None)"
proof (cases "10 \<le> length rf")
  case False
  then show ?thesis by (simp add: parse_frame_def)
next
  case True
  have s1: "slice rf 1 3 = [rf ! 1, rf ! 2]"
    using slice_pair [OF True, of 1] by (simp add: numeral_2_eq_2)
  have s3: "slice rf 3 5 = [rf ! 3, rf ! 4]"
    using slice_pair [OF True, of 3] by (simp add: eval_nat_numeral)
  have g5: "getitem rf 5 = Inr (rf ! 5)" and g6: "getitem rf 6 = Inr (rf ! 6)"
    using True by (simp_all add: getitem_def)
  have body: "parse_body rf =
     Inr (if rf ! (length rf - 3) = 0 \<and> rf ! (length rf - 2) = 1
          then Some \<lparr>source_id = uint (rf ! 1) * 256 + uint (rf ! 2),
                       dest_id = uint (rf ! 3) * 256 + uint (rf ! 4),
                       seq_num = uint (rf ! 5),
                       payload = take (unat (rf ! 6)) (drop 7 rf)\<rparr>
          else None)"
    by (simp add: parse_body_def s1 s3 g5 g6 slice_crc [OF True] slice_payload
        unpack_H_pair and_then_def Let_def crc_is_1)
  show ?thesis
    using True
    by (simp add: parse_frame_def slice_header slice_footer body FRAME_HEADER_def
        FRAME_FOOTER_def except_struct_index_def)
qed

section \<open>Decoding an encoded frame\<close>

lemma frame_bytes_length: "length (frame_bytes src dst sq pl) = 10 + length pl"
  by (simp add: frame_bytes_def)

lemma unpack_pack:
  assumes "valid_id x"
  shows "uint (word_of_int (x div 256) :: byte) * 256 + uint (word_of_int (x mod 256) :: byte) = x"
proof -
  from assms have "0 \<le> x" and "x \<le> 65535"
    by (simp_all add: valid_id_def)
  then have "0 \<le> x div 256" and "x div 256 < 256"
    using zdiv_mono1 [of x 65535 256] by (simp_all add: pos_imp_zdiv_nonneg_iff)
  then have a: "uint (word_of_int (x div 256) :: byte) = x div 256"
    by (simp add: uint_word_of_int)
  have b: "uint (word_of_int (x mod 256) :: byte) = x mod 256"
    by (simp add: uint_word_of_int)
  show ?thesis by (simp add: a b)
qed

lemma parse_frame_bytes:
  assumes "length pl \<le> 255" and "valid_id src" and "valid_id dst"
  shows "parse_frame self (frame_bytes src dst sq pl) =
           Inr (Some \<lparr>source_id = src, dest_id = dst, seq_num = sq mod 256, payload = pl\<rparr>)"
proof -
  let ?f = "frame_bytes src dst sq pl"
  have len: "length ?f = 10 + length pl" by (simp add: frame_bytes_def)
  have n0: "?f ! 0 = 0xAA" and n1: "?f ! 1 = word_of_int (src div 256)"
    and n2: "?f ! 2 = word_of_int (src mod 256)" and n3: "?f ! 3 = word_of_int (dst div 256)"
    and n4: "?f ! 4 = word_of_int (dst mod 256)" and n5: "?f ! 5 = word_of_int sq"
    and n6: "?f ! 6 = word_of_int (int (length pl))"
    by (simp_all add: frame_bytes_def)
  have la: "last ?f = 0x55" by (simp add: frame_bytes_def)
  have c1: "?f ! (length ?f - 3) = 0" and c2: "?f ! (length ?f - 2) = 1"
    by (simp_all add: frame_bytes_def nth_append)
  have dr: "drop 7 ?f = pl @ [0, 1, 0x55]" by (simp add: frame_bytes_def)
  have ul: "unat (word_of_int (int (length pl)) :: byte) = length pl"
    using assms(1) by (simp add: unat_of_nat)
  have cond: "10 \<le> length ?f \<and> ?f ! 0 = 0xAA \<and> last ?f = 0x55
      \<and> ?f ! (length ?f - 3) = 0 \<and> ?f ! (length ?f - 2) = 1"
    using len n0 la c1 c2 by simp
  have f_src: "uint (?f ! 1) * 256 + uint (?f ! 2) = src"
    unfolding n1 n2 by (rule unpack_pack [OF assms(2)])
  have f_dst: "uint (?f ! 3) * 256 + uint (?f ! 4) = dst"
    unfolding n3 n4 by (rule unpack_pack [OF assms(3)])
  have f_sq: "uint (?f ! 5) = sq mod 256"
    unfolding n5 by (simp add: uint_word_of_int)
  have f_pl: "take (unat (?f ! 6)) (drop 7 ?f) = pl"
    unfolding n6 dr ul by simp
  have "parse_frame self ?f =
      Inr (Some \<lparr>source_id = uint (?f ! 1) * 256 + uint (?f ! 2),
                   dest_id = uint (?f ! 3) * 256 + uint (?f ! 4),
                   seq_num = uint (?f ! 5),
                   payload = take (unat (?f ! 6)) (drop 7 ?f)\<rparr>)"
    using cond by (simp only: parse_frame_eq if_True simp_thms)
  then show ?thesis
    by (simp only: f_src f_dst f_sq f_pl)
qed

section \<open>Successive encodes\<close>






section \<open>Claims about encoding and decoding\<close>

text \<open>
  Claim C4 (round trip). For every destination identifier in \<open>0..0xFFFF\<close> and every payload
  of at most 255 bytes, \<open>create_frame\<close> on an instance whose own identifier is a 16-bit
  value succeeds, and \<open>parse_frame\<close> (on any instance) applied to the frame returns a
  dictionary whose payload and destination are the inputs and whose source is the
  encoder's \<open>device_id\<close>.
\<close>

theorem create_parse_round_trip:
  assumes "valid_id d" and "length pl \<le> 255" and "valid_id (device_id sender)"
  shows "\<exists>frame sender' fd.
           create_frame sender d pl = (Inr frame, sender')
           \<and> parse_frame receiver frame = Inr (Some fd)
           \<and> payload fd = pl \<and> dest_id fd = d \<and> source_id fd = device_id sender"
  using assms by (simp add: create_frame_ok parse_frame_bytes)

theorem create_parse_round_trip_witness:
  "valid_id 0x5678 \<and> length [0x48, 0x69 :: byte] \<le> 255
   \<and> valid_id (device_id (init (Some 0x1234) 0))
   \<and> (\<exists>frame sender' fd.
           create_frame (init (Some 0x1234) 0) 0x5678 [0x48, 0x69] = (Inr frame, sender')
           \<and> parse_frame (init (Some 0x5678) 0) frame = Inr (Some fd)
           \<and> payload fd = [0x48, 0x69] \<and> dest_id fd = 0x5678
           \<and> source_id fd = device_id (init (Some 0x1234) 0))"
proof -
  have a: "valid_id 0x5678" by (simp add: valid_id_def)
  have b: "length [0x48, 0x69 :: byte] \<le> 255" by simp
  have c: "valid_id (device_id (init (Some 0x1234) 0))"
    by (simp add: valid_id_def init_def truthy_def)
  from a b c create_parse_round_trip [OF a b c, of "init (Some 0x5678) 0"]
  show ?thesis by blast
qed

text \<open>
  Claim C9 (decoding is total). For every byte sequence \<open>parse_frame\<close> returns a
  dictionary or \<open>None\<close>; no exception leaves the call, although the model lets
  \<open>struct.unpack\<close>, indexing and the \<^verbatim>\<open>except\<close> clause fail as Python does.
\<close>

theorem parse_frame_total:
  "(\<exists>fd. parse_frame self rf = Inr (Some fd)) \<or> parse_frame self rf = Inr None"
  by (simp add: parse_frame_eq)

text \<open>
  Claim C7 (size boundary). A payload of 256 bytes makes \<open>create_frame\<close> raise
  \<^verbatim>\<open>ValueError("Payload exceeds maximum size")\<close>, the module's form of PayloadTooLarge,
  with no frame produced and the instance untouched; a payload of exactly 255 bytes, with
  16-bit identifiers, gives a frame of 265 bytes.
\<close>

theorem create_frame_size_boundary:
  "(length big = 256 \<longrightarrow>
      create_frame self d big = (Inl (ValueError ''Payload exceeds maximum size''), self))
   \<and> (length pl = 255 \<longrightarrow> valid_id (device_id self) \<longrightarrow> valid_id d \<longrightarrow>
      (\<exists>frame. create_frame self d pl =
                  (Inr frame, self\<lparr>sequence_number := (sequence_number self + 1) mod 256\<rparr>)
               \<and> length frame = 265))"
  by (simp add: create_frame_too_large create_frame_ok frame_bytes_length)

theorem create_frame_size_boundary_witness:
  "length (replicate 256 (0 :: byte)) = 256
   \<and> create_frame (init (Some 0x1234) 0) 0x5678 (replicate 256 0) =
       (Inl (ValueError ''Payload exceeds maximum size''), init (Some 0x1234) 0)
   \<and> length (replicate 255 (0 :: byte)) = 255
   \<and> valid_id (device_id (init (Some 0x1234) 0)) \<and> valid_id 0x5678
   \<and> (\<exists>frame. create_frame (init (Some 0x1234) 0) 0x5678 (replicate 255 0) =
        (Inr frame, (init (Some 0x1234) 0)\<lparr>sequence_number :=
                       (sequence_number (init (Some 0x1234) 0) + 1) mod 256\<rparr>)
        \<and> length frame = 265)"
proof -
  have a: "length (replicate 256 (0 :: byte)) = 256" and b: "length (replicate 255 (0 :: byte)) = 255"
    by simp_all
  have c: "valid_id (device_id (init (Some 0x1234) 0))" and d: "valid_id 0x5678"
    by (simp_all add: valid_id_def init_def truthy_def)
  from a b c d
    create_frame_size_boundary [where big = "replicate 256 0" and pl = "replicate 255 0"
      and self = "init (Some 0x1234) 0" and d = "0x5678"]
  show ?thesis by blast
qed

text \<open>
  Claim C10 (a refused call changes nothing). For every payload longer than 255 bytes the
  call raises and returns the instance as it was, counter included, so that any call made
  afterwards gives exactly what it would have given without the refused one.
\<close>

theorem create_frame_atomic_on_failure:
  "255 < length big \<Longrightarrow>
     create_frame self d big = (Inl (ValueError ''Payload exceeds maximum size''), self)
     \<and> sequence_number (snd (create_frame self d big)) = sequence_number self
     \<and> create_frame (snd (create_frame self d big)) d' pl = create_frame self d' pl"
  by (simp add: create_frame_too_large)

theorem create_frame_atomic_on_failure_witness:
  "255 < length (replicate 256 (0 :: byte))
   \<and> create_frame (init (Some 0x1234) 0) 0x5678 (replicate 256 0) =
       (Inl (ValueError ''Payload exceeds maximum size''), init (Some 0x1234) 0)
   \<and> sequence_number (snd (create_frame (init (Some 0x1234) 0) 0x5678 (replicate 256 0))) =
       sequence_number (init (Some 0x1234) 0)
   \<and> create_frame (snd (create_frame (init (Some 0x1234) 0) 0x5678 (replicate 256 0))) 0x5678 [0x48]
       = create_frame (init (Some 0x1234) 0) 0x5678 [0x48]"
proof -
  have a: "255 < length (replicate 256 (0 :: byte))" by simp
  from a create_frame_atomic_on_failure [OF a, of "init (Some 0x1234) 0" "0x5678" "0x5678" "[0x48]"]
  show ?thesis by blast
qed



section \<open>Device identity\<close>

text \<open>
  An explicit non-zero identifier is kept by the constructor, a constructed instance has
  a valid identifier whenever the argument (if any) and the random value are valid, and
  \<open>create_frame\<close> never changes it. \<open>parse_frame\<close> and \<open>retransmit_strategy\<close> assign
  nothing to the instance.
\<close>

lemma init_explicit_nonzero:
  "d \<noteq> 0 \<Longrightarrow> device_id (init (Some d) rnd) = d"
  by (simp add: init_def truthy_def)

lemma init_valid_id:
  "(case dev of None \<Rightarrow> True | Some d \<Rightarrow> valid_id d) \<Longrightarrow> valid_id rnd
   \<Longrightarrow> valid_id (device_id (init dev rnd))"
  by (cases dev) (simp_all add: init_def truthy_def)

lemma create_frame_device_id:
  "device_id (snd (create_frame self d pl)) = device_id self"
  by (simp add: create_frame_def Let_def)

text \<open>
  Claim C6 (an explicit identifier is kept), at the identifier 0. The constructor's
  \<^verbatim>\<open>device_id or random.randint(0, 0xFFFF)\<close> takes the explicit value 0 for a missing one:
  with the random value 0x1234 the instance's identifier is 0x1234, not 0.
\<close>

theorem init_zero_device_id:
  "device_id (init (Some 0) 0x1234) = 0x1234"
  by (simp add: init_def truthy_def)

section \<open>What the constant checksum and the unchecked length let through\<close>

lemma parse_frame_None_iff:
  "parse_frame self rf = Inr None \<longleftrightarrow>
     length rf < 10 \<or> rf ! 0 \<noteq> 0xAA \<or> last rf \<noteq> 0x55
     \<or> rf ! (length rf - 3) \<noteq> 0 \<or> rf ! (length rf - 2) \<noteq> 1"
  by (auto simp add: parse_frame_eq)

text \<open>
  Claim C1 (single-bit corruption is detected), at one frame. The frame that device
  0x1234 encodes for 0x5678 with payload \<^verbatim>\<open>b'Hi'\<close> has the bytes 00 01 in its checksum
  field whatever it carries. Inverting the lowest bit of the first payload byte gives a
  buffer that \<open>parse_frame\<close> accepts, with the payload \<^verbatim>\<open>b'Ii'\<close>.
\<close>

theorem parse_frame_accepts_flipped_bit:
  "fst (create_frame (init (Some 0x1234) 0) 0x5678 [0x48, 0x69]) =
     Inr [0xAA, 0x12, 0x34, 0x56, 0x78, 1, 2, 0x48, 0x69, 0, 1, 0x55]
   \<and> flip_bit 7 0 [0xAA, 0x12, 0x34, 0x56, 0x78, 1, 2, 0x48, 0x69, 0, 1, 0x55] =
       [0xAA, 0x12, 0x34, 0x56, 0x78, 1, 2, 0x49, 0x69, 0, 1, 0x55]
   \<and> parse_frame (init (Some 0x5678) 0)
       (flip_bit 7 0 [0xAA, 0x12, 0x34, 0x56, 0x78, 1, 2, 0x48, 0x69, 0, 1, 0x55]) =
     Inr (Some \<lparr>source_id = 0x1234, dest_id = 0x5678, seq_num = 1, payload = [0x49, 0x69]\<rparr>)"
proof -
  have v: "valid_id (device_id (init (Some 0x1234) 0))" and vd: "valid_id 0x5678"
    by (simp_all add: valid_id_def init_def truthy_def)
  have a: "fst (create_frame (init (Some 0x1234) 0) 0x5678 [0x48, 0x69]) =
     Inr [0xAA, 0x12, 0x34, 0x56, 0x78, 1, 2, 0x48, 0x69, 0, 1, 0x55]"
    using create_frame_ok [of "[0x48, 0x69]" "init (Some 0x1234) 0" "0x5678"] v vd
    by (simp add: frame_bytes_def init_def truthy_def)
  have b: "flip_bit 7 0 [0xAA, 0x12, 0x34, 0x56, 0x78, 1, 2, 0x48, 0x69, 0, 1, 0x55] =
       [0xAA, 0x12, 0x34, 0x56, 0x78, 1, 2, 0x49, 0x69, 0, 1, 0x55 :: byte]"
    by (simp add: flip_bit_def eval_nat_numeral)
  show ?thesis
    unfolding b using a by (simp add: parse_frame_eq)
qed

text \<open>
  Claim C3 (when decoding returns none), at one buffer. The ten bytes below declare a
  payload of 255 bytes, which the buffer cannot hold. The slice
  \<^verbatim>\<open>received_frame[7:7+payload_len]\<close> is cut short without an exception, and
  \<open>parse_frame\<close> returns a dictionary whose payload is the checksum field and the footer.
\<close>

theorem parse_frame_accepts_overlong_length:
  "parse_frame (init (Some 0x5678) 0) [0xAA, 0, 1, 0, 2, 5, 0xFF, 0, 1, 0x55] =
     Inr (Some \<lparr>source_id = 1, dest_id = 2, seq_num = 5, payload = [0, 1, 0x55]\<rparr>)"
  by (simp add: parse_frame_eq)

text \<open>
  Claim C5 (a truncated frame is rejected), at one frame. The frame that device 0x1234
  encodes for 0x5678 with the payload 00 01 55 has 13 bytes. Its prefix of 10 bytes ends
  in 00 01 55 too, and \<open>parse_frame\<close> accepts it.
\<close>

theorem parse_frame_accepts_truncated_frame:
  "fst (create_frame (init (Some 0x1234) 0) 0x5678 [0, 1, 0x55]) =
     Inr [0xAA, 0x12, 0x34, 0x56, 0x78, 1, 3, 0, 1, 0x55, 0, 1, 0x55]
   \<and> parse_frame (init (Some 0x5678) 0)
       (take 10 [0xAA, 0x12, 0x34, 0x56, 0x78, 1, 3, 0, 1, 0x55, 0, 1, 0x55]) =
     Inr (Some \<lparr>source_id = 0x1234, dest_id = 0x5678, seq_num = 1, payload = [0, 1, 0x55]\<rparr>)"
proof -
  have v: "valid_id (device_id (init (Some 0x1234) 0))" and vd: "valid_id 0x5678"
    by (simp_all add: valid_id_def init_def truthy_def)
  have a: "fst (create_frame (init (Some 0x1234) 0) 0x5678 [0, 1, 0x55]) =
     Inr [0xAA, 0x12, 0x34, 0x56, 0x78, 1, 3, 0, 1, 0x55, 0, 1, 0x55]"
    using create_frame_ok [of "[0, 1, 0x55]" "init (Some 0x1234) 0" "0x5678"] v vd
    by (simp add: frame_bytes_def init_def truthy_def)
  show ?thesis
    using a by (simp add: parse_frame_eq)
qed

section \<open>Retransmission\<close>

text \<open>
  What \<^verbatim>\<open>transmit\<close> does, written out; the transmissions of one call and of a list of
  calls; a call of \<open>retransmit_strategy\<close> can be struck from any list of calls.
\<close>

lemma transmit_eq:
  "transmit message =
     (Inr (), [SX1262, Send (frame_bytes 0x1234 0x5678 1 (bytes_of ''Hello, LoRa World!''))])"
proof -
  have v: "valid_id (device_id (init (Some 0x1234) 0))" and vd: "valid_id 0x5678"
    by (simp_all add: valid_id_def init_def truthy_def)
  have l: "length (bytes_of ''Hello, LoRa World!'') \<le> 255"
    by (simp add: bytes_of_def)
  have d: "device_id (init (Some 0x5678) 0) = 0x5678" and s: "device_id (init (Some 0x1234) 0) = 0x1234"
    and q: "sequence_number (init (Some 0x1234) 0) = 0"
    by (simp_all add: init_def truthy_def)
  have "fst (create_frame (init (Some 0x1234) 0) 0x5678 (bytes_of ''Hello, LoRa World!'')) =
      Inr (frame_bytes 0x1234 0x5678 1 (bytes_of ''Hello, LoRa World!''))"
    using create_frame_ok [OF l v vd] by (simp add: s q)
  then show ?thesis
    by (simp add: transmit_def Let_def d get_modem_def)
qed

lemma transmissions_append: "transmissions (a @ b) = transmissions a + transmissions b"
  by (simp add: transmissions_def)

lemma polls_append: "polls (a @ b) = polls a + polls b"
  by (simp add: polls_def)

lemma transmissions_run: "transmissions (snd (run c self)) = (if is_transmit c then 1 else 0)"
  by (cases c)
    (simp_all add: transmissions_def transmit_eq receive_def example_transmission_def
      get_modem_def Let_def)

lemma snd_run_calls_Cons:
  "snd (run_calls (c # cs) self) = snd (run c self) @ snd (run_calls cs (fst (run c self)))"
  by (simp add: Let_def split: prod.splits)

lemma transmissions_run_calls:
  "transmissions (snd (run_calls cs self)) = length (filter is_transmit cs)"
proof (induction cs arbitrary: self)
  case Nil
  show ?case by (simp add: transmissions_def)
next
  case (Cons c cs)
  show ?case
    by (simp only: snd_run_calls_Cons transmissions_append transmissions_run Cons.IH)
      simp
qed

lemma run_calls_append:
  "run_calls (as @ bs) self =
     (fst (run_calls bs (fst (run_calls as self))),
      snd (run_calls as self) @ snd (run_calls bs (fst (run_calls as self))))"
  by (induction as arbitrary: self) (simp_all add: Let_def split: prod.splits)

lemma run_calls_drop_strategy:
  "run_calls (pre @ Retransmit_strategy m t # post) self = run_calls (pre @ post) self"
  by (simp add: run_calls_append)

text \<open>
  Claim C2 (four transmissions with \<open>max_retries = 3\<close> when receive returns none), as
  stated, does not hold of the module. After \<^verbatim>\<open>retransmit_strategy(3, 2.0)\<close>, a call of
  \<^verbatim>\<open>transmit\<close> followed by a poll to which the driver answers none leaves one transmission
  and one poll: nothing is sent again. And after \<^verbatim>\<open>retransmit_strategy(3, 2.0)\<close> there is no
  call at all, on any instance and whatever the driver answers, that makes four
  transmissions.
\<close>

theorem no_send_makes_four_transmissions:
  "transmissions (snd (run_calls
       [Retransmit_strategy (Some 3) (Some 2), Transmit [], Receive None]
       (init (Some 0x1234) 0))) = 1
   \<and> polls (snd (run_calls
       [Retransmit_strategy (Some 3) (Some 2), Transmit [], Receive None]
       (init (Some 0x1234) 0))) = 1
   \<and> \<not> (\<exists>self c. transmissions (snd (run_calls
             [Retransmit_strategy (Some 3) (Some 2), c] self)) = 4)"
proof (intro conjI)
  show "transmissions (snd (run_calls
       [Retransmit_strategy (Some 3) (Some 2), Transmit [], Receive None]
       (init (Some 0x1234) 0))) = 1"
    by (simp add: transmissions_run_calls del: run_calls.simps)
  show "polls (snd (run_calls
       [Retransmit_strategy (Some 3) (Some 2), Transmit [], Receive None]
       (init (Some 0x1234) 0))) = 1"
    by (simp add: transmit_eq receive_def get_modem_def polls_def)
  show "\<not> (\<exists>self c. transmissions (snd (run_calls
             [Retransmit_strategy (Some 3) (Some 2), c] self)) = 4)"
    by (simp add: transmissions_run_calls del: run_calls.simps)
qed

text \<open>
  Claim C2, amended. \<open>retransmit_strategy\<close> returns the dictionary of its two arguments,
  each with its own default (3 and 2.0). Calling it changes nothing: a list of calls with
  it gives the same instance and the same driver calls as the list without it.
  \<^verbatim>\<open>transmit\<close> returns normally after one \<^verbatim>\<open>modem.send\<close> and no \<^verbatim>\<open>modem.recv\<close>. So any list
  of calls makes as many transmissions as it has calls of \<^verbatim>\<open>transmit\<close>, whatever was
  configured and whatever the driver answers.
\<close>

theorem retransmit_strategy_drives_nothing:
  "retransmit_strategy self m t =
     \<lparr>max_retries = (case m of None \<Rightarrow> 3 | Some x \<Rightarrow> x),
      timeout = (case t of None \<Rightarrow> 2 | Some x \<Rightarrow> x)\<rparr>
   \<and> run_calls (pre @ Retransmit_strategy m t # post) self = run_calls (pre @ post) self
   \<and> transmit message =
       (Inr (), [SX1262, Send (frame_bytes 0x1234 0x5678 1 (bytes_of ''Hello, LoRa World!''))])
   \<and> polls (snd (transmit message)) = 0
   \<and> transmissions (snd (run_calls cs self)) = length (filter is_transmit cs)"
  by (simp add: retransmit_strategy_def run_calls_drop_strategy transmit_eq polls_def
      transmissions_run_calls del: run_calls.simps split: option.splits)

end
